theory Spec2Isabelle
  imports Main "HOL-Library.Word"
begin

section \<open>The header \<open>zsh.h\<close>: declarations of zsh's completion and line-editor internals\<close>

text \<open>
  \<open>zsh.h\<close> holds no function body: it is a sequence of preprocessor directives, type
  aliases, struct layouts, variable declarations and function declarations. The embedding
  therefore has two layers. The first is the header as written, item by item and in the
  order of the file, with the macro name \<open>mod_export\<close> still in place and the conditional
  member of \<open>struct cmgroup\<close> still guarded. The second is what a C compiler does with
  that text before any binding is generated from it: macro expansion, conditional
  inclusion, resolution of type aliases in declaration order, linkage of the declared
  names and evaluation of the constant initialisers.
\<close>

subsection \<open>Syntax of the header\<close>

text \<open>
  Types as they are spelled in the header. \<open>TNamed\<close> is a use of a type alias; the
  aliases \<open>size_t\<close> and \<open>uint32_t\<close> come from the two system headers that are included
  and stay names here.
\<close>

datatype ctype =
    TVoid
  | TChar
  | TUChar
  | TInt
  | TLong
  | TNamed string
  | TStruct string
  | TPtr ctype

text \<open>Initialiser expressions, and the statements a function body would consist of.\<close>

datatype expr =
    ENum int
  | EIdent string
  | ECast ctype expr
  | EParen expr

datatype stmt =
    SExpr expr
  | SAssign string expr
  | SReturn "expr option"
  | SIf expr "stmt list" "stmt list"
  | SWhile expr "stmt list"

text \<open>
  A parameter list is \<open>()\<close> (nothing said about the parameters), \<open>(void)\<close>, or a list
  of typed names.
\<close>

datatype params =
    Unspecified
  | ParamVoid
  | Params "(ctype \<times> string) list"

text \<open>
  A struct member is either plain, or wrapped in \<open>#ifdef M ... #endif\<close>.
\<close>

datatype member =
    Member ctype string
  | IfdefMember string ctype string

text \<open>
  One item of the file. The string list in front of a declaration holds the tokens written
  before its type (\<open>mod_export\<close>, \<open>static\<close>). A function declaration carries its body
  when it is a definition.
\<close>

datatype item =
    Define string "string list"
  | Include string
  | Typedef ctype string
  | StructDef string "member list"
  | VarDecl "string list" ctype "(string \<times> expr option) list"
  | FunDecl "string list" ctype string params "stmt list option"

subsection \<open>The file\<close>

definition cmatch_members :: "member list" where
  "cmatch_members =
    [ Member (TPtr TChar) ''str'',              \<comment> \<open>the match itself\<close>
      Member (TPtr TChar) ''orig'',             \<comment> \<open>the match string unquoted\<close>
      Member (TPtr TChar) ''ipre'',             \<comment> \<open>ignored prefix, has to be re-inserted\<close>
      Member (TPtr TChar) ''ripre'',            \<comment> \<open>ignored prefix, unquoted\<close>
      Member (TPtr TChar) ''isuf'',             \<comment> \<open>ignored suffix\<close>
      Member (TPtr TChar) ''ppre'',             \<comment> \<open>the path prefix\<close>
      Member (TPtr TChar) ''psuf'',             \<comment> \<open>the path suffix\<close>
      Member (TPtr TChar) ''prpre'',            \<comment> \<open>path prefix for opendir\<close>
      Member (TPtr TChar) ''pre'',              \<comment> \<open>prefix string from -P\<close>
      Member (TPtr TChar) ''suf'',              \<comment> \<open>suffix string from -S\<close>
      Member (TPtr TChar) ''disp'',             \<comment> \<open>string to display (compadd -d)\<close>
      Member (TPtr TChar) ''autoq'',            \<comment> \<open>closing quote to add automatically\<close>
      Member TInt ''flags'',                    \<comment> \<open>see CMF_* below\<close>
      Member (TPtr TInt) ''brpl'',              \<comment> \<open>places where to put the brace prefixes\<close>
      Member (TPtr TInt) ''brsl'',              \<comment> \<open>...and the suffixes\<close>
      Member (TPtr TChar) ''rems'',             \<comment> \<open>when to remove the suffix\<close>
      Member (TPtr TChar) ''remf'',             \<comment> \<open>shell function to call for suffix-removal\<close>
      Member TInt ''qipl'',                     \<comment> \<open>length of quote-prefix\<close>
      Member TInt ''qisl'',                     \<comment> \<open>length of quote-suffix\<close>
      Member TInt ''rnum'',                     \<comment> \<open>group relative number\<close>
      Member TInt ''gnum'',                     \<comment> \<open>global number\<close>
      Member (TNamed ''mode_t'') ''mode'',      \<comment> \<open>mode field of a stat\<close>
      Member TChar ''modec'',                   \<comment> \<open>LIST_TYPE-character for mode or nul\<close>
      Member (TNamed ''mode_t'') ''fmode'',     \<comment> \<open>mode field of a stat, following symlink\<close>
      Member TChar ''fmodec''                   \<comment> \<open>LIST_TYPE-character for fmode or nul\<close>
    ]"

definition cmgroup_members :: "member list" where
  "cmgroup_members =
    [ Member (TPtr TChar) ''name'',                         \<comment> \<open>the name of this group\<close>
      Member (TNamed ''Cmgroup'') ''prev'',                 \<comment> \<open>previous on the list\<close>
      Member (TNamed ''Cmgroup'') ''next'',                 \<comment> \<open>next one in list\<close>
      Member TInt ''flags'',                                \<comment> \<open>see CGF_* below\<close>
      Member TInt ''mcount'',                               \<comment> \<open>number of matches\<close>
      Member (TPtr (TNamed ''Cmatch'')) ''matches'',        \<comment> \<open>the matches\<close>
      Member TInt ''lcount'',                               \<comment> \<open>number of things to list here\<close>
      Member TInt ''llcount'',                              \<comment> \<open>number of line-displays\<close>
      Member (TPtr (TPtr TChar)) ''ylist'',                 \<comment> \<open>things to list\<close>
      Member TInt ''ecount'',                               \<comment> \<open>number of explanation string\<close>
      Member (TPtr (TNamed ''Cexpl'')) ''expls'',           \<comment> \<open>explanation strings\<close>
      Member TInt ''ccount'',                               \<comment> \<open>number of compctls used\<close>
      Member (TNamed ''LinkList'') ''lexpls'',              \<comment> \<open>list of explanation string while building\<close>
      Member (TNamed ''LinkList'') ''lmatches'',            \<comment> \<open>list of matches\<close>
      Member (TNamed ''LinkList'') ''lfmatches'',           \<comment> \<open>list of matches without fignore\<close>
      Member (TNamed ''LinkList'') ''lallccs'',             \<comment> \<open>list of used compctls\<close>
      Member TInt ''num'',                                  \<comment> \<open>number of this group\<close>
      Member TInt ''nbrbeg'',                               \<comment> \<open>number of opened braces\<close>
      Member TInt ''nbrend'',                               \<comment> \<open>number of closed braces\<close>
      Member TInt ''new'',                                  \<comment> \<open>new matches since last permalloc()\<close>
      Member TInt ''dcount'',                               \<comment> \<open>number of matches to list in columns\<close>
      Member TInt ''cols'',                                 \<comment> \<open>number of columns\<close>
      Member TInt ''lins'',                                 \<comment> \<open>number of lines\<close>
      Member TInt ''width'',                                \<comment> \<open>column width\<close>
      Member (TPtr TInt) ''widths'',                        \<comment> \<open>column widths for listpacked\<close>
      Member TInt ''totl'',                                 \<comment> \<open>total length\<close>
      Member TInt ''shortest'',                             \<comment> \<open>length of shortest match\<close>
      Member (TNamed ''Cmgroup'') ''perm'',                 \<comment> \<open>perm. alloced version of this group\<close>
      IfdefMember ''ZSH_HEAP_DEBUG'' (TNamed ''Heapid'') ''heap_id''
    ]"

definition menuinfo_members :: "member list" where
  "menuinfo_members =
    [ Member (TNamed ''Cmgroup'') ''group'',        \<comment> \<open>position in the group list\<close>
      Member (TPtr (TNamed ''Cmatch'')) ''cur'',    \<comment> \<open>match currently inserted\<close>
      Member TInt ''pos'',                          \<comment> \<open>begin on line\<close>
      Member TInt ''len'',                          \<comment> \<open>length of inserted string\<close>
      Member TInt ''end'',                          \<comment> \<open>end on the line\<close>
      Member TInt ''we'',                           \<comment> \<open>non-zero if the cursor was at the end\<close>
      Member TInt ''insc'',                         \<comment> \<open>length of suffix inserted\<close>
      Member TInt ''asked'',                        \<comment> \<open>we asked if the list should be shown\<close>
      Member (TPtr TChar) ''prebr'',                \<comment> \<open>prefix before a brace, if any\<close>
      Member (TPtr TChar) ''postbr''                \<comment> \<open>suffix after a brace\<close>
    ]"

text \<open>The items of \<open>zsh.h\<close>, lines 33 to 162, in order.\<close>

definition zsh_h :: "item list" where
  "zsh_h =
    [ Define ''mod_export'' [''static'', '';''],
      Include ''stdint.h'',
      Include ''unistd.h'',
      Typedef (TNamed ''size_t'') ''LinkList'',
      Typedef (TNamed ''uint32_t'') ''mode_t'',
      VarDecl [''mod_export'', ''static''] TUChar
        [(''Meta'', Some (EParen (ECast TChar (ENum 0x83))))],
      VarDecl [''mod_export'', ''static''] TUChar
        [(''Inpar'', Some (EParen (ECast TChar (ENum 0x88))))],
      VarDecl [''mod_export'', ''static''] TUChar
        [(''Outpar'', Some (EParen (ECast TChar (ENum 0x8a))))],
      Typedef (TPtr (TStruct ''cmatcher'')) ''Cmatcher'',
      Typedef (TPtr (TStruct ''cmlist'')) ''Cmlist'',
      Typedef (TPtr (TStruct ''cpattern'')) ''Cpattern'',
      Typedef (TPtr (TStruct ''menuinfo'')) ''Menuinfo'',
      Typedef (TPtr (TStruct ''cexpl'')) ''Cexpl'',
      Typedef (TPtr (TStruct ''cmgroup'')) ''Cmgroup'',
      Typedef (TPtr (TStruct ''cmatch'')) ''Cmatch'',
      StructDef ''cmatch'' cmatch_members,
      Typedef (TPtr (TStruct ''cmgroup'')) ''Cmgroup'',
      StructDef ''cmgroup'' cmgroup_members,
      VarDecl [''mod_export''] (TNamed ''LinkList'') [(''matches'', None)],
      VarDecl [''mod_export''] (TNamed ''Cmgroup'')
        [(''lastmatches'', None), (''pmatches'', None), (''amatches'', None),
         (''lmatches'', None), (''lastlmatches'', None)],
      VarDecl [''mod_export''] (TPtr (TPtr TChar)) [(''cfargs'', None)],
      VarDecl [''mod_export''] TInt [(''cfret'', None)],
      VarDecl [''mod_export''] (TPtr TChar) [(''compfunc'', Some (EIdent ''NULL''))],
      VarDecl [''mod_export''] TInt [(''nbrbeg'', None), (''nbrend'', None)],
      FunDecl [''mod_export''] TInt ''menucomplete''
        (Params [(TPtr (TPtr TChar), ''args'')]) None,
      FunDecl [''mod_export''] TVoid ''makezleparams'' (Params [(TInt, ''ro'')]) None,
      FunDecl [''mod_export''] TInt ''permmatches'' (Params [(TInt, ''last'')]) None,
      FunDecl [''mod_export''] TVoid ''do_single'' (Params [(TNamed ''Cmatch'', ''m'')]) None,
      FunDecl [''mod_export''] TVoid ''metafy_line'' ParamVoid None,
      FunDecl [''mod_export''] TVoid ''unmetafy_line'' ParamVoid None,
      StructDef ''menuinfo'' menuinfo_members,
      VarDecl [''mod_export''] (TStruct ''menuinfo'') [(''minfo'', None)],
      FunDecl [] TInt ''expandhistory'' Unspecified None,
      FunDecl [] TVoid ''set_histno'' (Params [(TPtr TVoid, ''pm''), (TLong, ''x'')]) None,
      FunDecl [] TInt ''selectkeymap'' (Params [(TPtr TChar, ''name''), (TInt, ''fb'')]) None,
      FunDecl [] TVoid ''initundo'' ParamVoid None,
      FunDecl [] TInt ''acceptline'' Unspecified None
    ]"

subsection \<open>Preprocessing\<close>

text \<open>
  The macro table is an association list, newest definition first. The header tests one
  macro it does not define itself, \<open>ZSH_HEAP_DEBUG\<close>; whether the compiler was started
  with it is the parameter of \<open>predefined\<close>.
\<close>

type_synonym macros = "(string \<times> string list) list"

definition predefined :: "bool \<Rightarrow> macros" where
  "predefined heap_debug = (if heap_debug then [(''ZSH_HEAP_DEBUG'', [''1''])] else [])"

text \<open>Replace every token that names a macro by the macro's replacement list.\<close>

fun expand :: "macros \<Rightarrow> string list \<Rightarrow> string list" where
  "expand ms [] = []"
| "expand ms (t # ts) =
     (case map_of ms t of Some body \<Rightarrow> body | None \<Rightarrow> [t]) @ expand ms ts"

text \<open>
  The tokens in front of a declaration, cut at every \<open>;\<close>: each piece that ends in a
  semicolon is a declaration of its own, without a declarator, and the rest belongs to the
  declaration that follows. The accumulator holds the current piece in reverse.
\<close>

fun split_specs :: "string list \<Rightarrow> string list \<Rightarrow> string list list \<times> string list" where
  "split_specs acc [] = ([], rev acc)"
| "split_specs acc (t # ts) =
     (if t = '';''
      then (case split_specs [] ts of (es, fin) \<Rightarrow> (rev acc # es, fin))
      else split_specs (t # acc) ts)"

text \<open>Conditional members: kept when the macro is defined, dropped otherwise.\<close>

fun fields :: "macros \<Rightarrow> member list \<Rightarrow> (ctype \<times> string) list" where
  "fields ms [] = []"
| "fields ms (Member t n # xs) = (t, n) # fields ms xs"
| "fields ms (IfdefMember m t n # xs) =
     (if map_of ms m \<noteq> None then [(t, n)] else []) @ fields ms xs"

text \<open>
  A declaration of the translation unit, after preprocessing. \<open>DEmpty\<close> is a declaration
  that consists of specifiers only and declares no name.
\<close>

datatype decl =
    DEmpty "string list"
  | DTypedef ctype string
  | DStruct string "(ctype \<times> string) list"
  | DVar "string list" ctype "(string \<times> expr option) list"
  | DFun "string list" ctype string params "stmt list option"

fun preprocess :: "macros \<Rightarrow> item list \<Rightarrow> decl list" where
  "preprocess ms [] = []"
| "preprocess ms (Define n body # its) = preprocess ((n, body) # ms) its"
| "preprocess ms (Include h # its) = preprocess ms its"
| "preprocess ms (Typedef t n # its) = DTypedef t n # preprocess ms its"
| "preprocess ms (StructDef n mem # its) = DStruct n (fields ms mem) # preprocess ms its"
| "preprocess ms (VarDecl sp t vs # its) =
     (case split_specs [] (expand ms sp) of
        (es, fin) \<Rightarrow> map DEmpty es @ [DVar fin t vs]) @ preprocess ms its"
| "preprocess ms (FunDecl sp t n ps b # its) =
     (case split_specs [] (expand ms sp) of
        (es, fin) \<Rightarrow> map DEmpty es @ [DFun fin t n ps b]) @ preprocess ms its"

definition translation_unit :: "bool \<Rightarrow> decl list" where
  "translation_unit heap_debug = preprocess (predefined heap_debug) zsh_h"

subsection \<open>Kinds of declarations, and function bodies\<close>

datatype kind = KDirective | KEmpty | KAlias | KLayout | KVariable | KPrototype | KDefinition

fun kind_of :: "item \<Rightarrow> kind" where
  "kind_of (Define n body) = KDirective"
| "kind_of (Include h) = KDirective"
| "kind_of (Typedef t n) = KAlias"
| "kind_of (StructDef n mem) = KLayout"
| "kind_of (VarDecl sp t vs) = KVariable"
| "kind_of (FunDecl sp t n ps None) = KPrototype"
| "kind_of (FunDecl sp t n ps (Some b)) = KDefinition"

fun decl_kind :: "decl \<Rightarrow> kind" where
  "decl_kind (DEmpty sp) = KEmpty"
| "decl_kind (DTypedef t n) = KAlias"
| "decl_kind (DStruct n fs) = KLayout"
| "decl_kind (DVar sp t vs) = KVariable"
| "decl_kind (DFun sp t n ps None) = KPrototype"
| "decl_kind (DFun sp t n ps (Some b)) = KDefinition"

text \<open>The declarations of the file are its items other than preprocessor directives.\<close>

definition declarations :: "item list \<Rightarrow> item list" where
  "declarations its = filter (\<lambda>it. kind_of it \<noteq> KDirective) its"

text \<open>The statements of the file: those of every function body, in order.\<close>

fun item_body :: "item \<Rightarrow> stmt list" where
  "item_body (FunDecl sp t n ps (Some b)) = b"
| "item_body _ = []"

fun decl_body :: "decl \<Rightarrow> stmt list" where
  "decl_body (DFun sp t n ps (Some b)) = b"
| "decl_body _ = []"

definition statements :: "item list \<Rightarrow> stmt list" where
  "statements its = concat (map item_body its)"

definition unit_statements :: "decl list \<Rightarrow> stmt list" where
  "unit_statements tu = concat (map decl_body tu)"

text \<open>
  What a statement does that the claims speak of: the variables it assigns, the values it
  returns, and the conditions it branches on.
\<close>

fun assigned :: "stmt \<Rightarrow> string list" where
  "assigned (SAssign x e) = [x]"
| "assigned (SIf c a b) = concat (map assigned a) @ concat (map assigned b)"
| "assigned (SWhile c b) = concat (map assigned b)"
| "assigned (SExpr e) = []"
| "assigned (SReturn r) = []"

fun returned :: "stmt \<Rightarrow> expr option list" where
  "returned (SReturn r) = [r]"
| "returned (SIf c a b) = concat (map returned a) @ concat (map returned b)"
| "returned (SWhile c b) = concat (map returned b)"
| "returned (SExpr e) = []"
| "returned (SAssign x e) = []"

fun branches :: "stmt \<Rightarrow> expr list" where
  "branches (SIf c a b) = c # concat (map branches a) @ concat (map branches b)"
| "branches (SWhile c b) = c # concat (map branches b)"
| "branches (SExpr e) = []"
| "branches (SAssign x e) = []"
| "branches (SReturn r) = []"

subsection \<open>Type aliases and struct layouts\<close>

text \<open>
  An alias is resolved against the aliases declared before it, so the table that
  \<open>typedefs\<close> builds maps every alias of the file to a type free of the file's aliases.
  A name the file does not declare stays as it is.
\<close>

fun resolve :: "(string \<times> ctype) list \<Rightarrow> ctype \<Rightarrow> ctype" where
  "resolve tab (TNamed n) = (case map_of tab n of Some t \<Rightarrow> t | None \<Rightarrow> TNamed n)"
| "resolve tab (TPtr t) = TPtr (resolve tab t)"
| "resolve tab TVoid = TVoid"
| "resolve tab TChar = TChar"
| "resolve tab TUChar = TUChar"
| "resolve tab TInt = TInt"
| "resolve tab TLong = TLong"
| "resolve tab (TStruct s) = TStruct s"

fun typedefs :: "(string \<times> ctype) list \<Rightarrow> decl list \<Rightarrow> (string \<times> ctype) list" where
  "typedefs tab [] = tab"
| "typedefs tab (DTypedef t n # ds) = typedefs ((n, resolve tab t) # tab) ds"
| "typedefs tab (d # ds) = typedefs tab ds"

text \<open>The members of every struct, with the types the aliases in scope stand for.\<close>

fun structs :: "(string \<times> ctype) list \<Rightarrow> decl list \<Rightarrow> (string \<times> (string \<times> ctype) list) list" where
  "structs tab [] = []"
| "structs tab (DTypedef t n # ds) = structs ((n, resolve tab t) # tab) ds"
| "structs tab (DStruct s fs # ds) =
     (s, map (\<lambda>(t, f). (f, resolve tab t)) fs) # structs tab ds"
| "structs tab (d # ds) = structs tab ds"

definition field_type :: "decl list \<Rightarrow> string \<Rightarrow> string \<Rightarrow> ctype option" where
  "field_type tu s f =
     (case map_of (structs [] tu) s of None \<Rightarrow> None | Some fs \<Rightarrow> map_of fs f)"

definition field_names :: "decl list \<Rightarrow> string \<Rightarrow> string list" where
  "field_names tu s = (case map_of (structs [] tu) s of None \<Rightarrow> [] | Some fs \<Rightarrow> map fst fs)"

text \<open>The struct a type refers to, if any, and the members of a struct that refer to one.\<close>

fun struct_ref :: "ctype \<Rightarrow> string option" where
  "struct_ref (TStruct s) = Some s"
| "struct_ref (TPtr t) = struct_ref t"
| "struct_ref TVoid = None"
| "struct_ref TChar = None"
| "struct_ref TUChar = None"
| "struct_ref TInt = None"
| "struct_ref TLong = None"
| "struct_ref (TNamed n) = None"

definition links :: "decl list \<Rightarrow> string \<Rightarrow> (string \<times> string) list" where
  "links tu s =
     (case map_of (structs [] tu) s of
        None \<Rightarrow> []
      | Some fs \<Rightarrow> concat (map (\<lambda>(f, t). case struct_ref t of None \<Rightarrow> [] | Some r \<Rightarrow> [(f, r)]) fs))"

text \<open>
  The unsigned integer types. \<open>unsigned char\<close> is the only one the header spells out; the
  other two are the aliases it takes from \<open>stdint.h\<close> and \<open>unistd.h\<close>, which are not part
  of the repository: \<open>uint32_t\<close> has 32 bits by the C standard, and the width of \<open>size_t\<close>
  is the platform's, the parameter \<open>w\<close>.
\<close>

fun unsigned_bits :: "nat \<Rightarrow> ctype \<Rightarrow> nat option" where
  "unsigned_bits w TUChar = Some 8"
| "unsigned_bits w (TNamed n) =
     (if n = ''uint32_t'' then Some 32 else if n = ''size_t'' then Some w else None)"
| "unsigned_bits w TVoid = None"
| "unsigned_bits w TChar = None"
| "unsigned_bits w TInt = None"
| "unsigned_bits w TLong = None"
| "unsigned_bits w (TStruct s) = None"
| "unsigned_bits w (TPtr t) = None"

subsection \<open>Globals, functions and linkage\<close>

text \<open>
  At file scope a name declared with \<open>static\<close> has internal linkage, and external linkage
  otherwise.
\<close>

datatype linkage = Internal | External

definition linkage_of :: "string list \<Rightarrow> linkage" where
  "linkage_of sp = (if ''static'' \<in> set sp then Internal else External)"

fun globals :: "(string \<times> ctype) list \<Rightarrow> decl list \<Rightarrow> (string \<times> linkage \<times> ctype \<times> expr option) list" where
  "globals tab [] = []"
| "globals tab (DTypedef t n # ds) = globals ((n, resolve tab t) # tab) ds"
| "globals tab (DVar sp t vs # ds) =
     map (\<lambda>(x, e). (x, linkage_of sp, resolve tab t, e)) vs @ globals tab ds"
| "globals tab (d # ds) = globals tab ds"

text \<open>Every function the unit declares: its name, its linkage, and whether it has a body.\<close>

fun declared_functions :: "decl list \<Rightarrow> (string \<times> linkage \<times> bool) list" where
  "declared_functions [] = []"
| "declared_functions (DFun sp t n ps b # ds) =
     (n, linkage_of sp, b \<noteq> None) # declared_functions ds"
| "declared_functions (d # ds) = declared_functions ds"

text \<open>
  For every function the unit declares, the values its body returns and the conditions its
  body branches on.
\<close>

fun outcomes :: "decl list \<Rightarrow> (string \<times> expr option list \<times> expr list) list" where
  "outcomes [] = []"
| "outcomes (DFun sp t n ps b # ds) =
     (n, concat (map returned (decl_body (DFun sp t n ps b))),
         concat (map branches (decl_body (DFun sp t n ps b)))) # outcomes ds"
| "outcomes (d # ds) = outcomes ds"

text \<open>The macros the file defines.\<close>

fun defined_macros :: "item list \<Rightarrow> string list" where
  "defined_macros [] = []"
| "defined_macros (Define n body # its) = n # defined_macros its"
| "defined_macros (it # its) = defined_macros its"

subsection \<open>Values of the initialisers\<close>

text \<open>
  A constant is an integer or the null pointer. Conversion to \<open>unsigned char\<close> reduces
  modulo \<open>2 ^ 8\<close>. Whether plain \<open>char\<close> is signed is the platform's choice, the
  parameter \<open>sg\<close>; a signed \<open>char\<close> takes the low eight bits in two's complement, as the
  compilers the header is read by do. \<open>NULL\<close> is the null pointer constant of the
  included system headers; no other identifier is a constant.
\<close>

datatype cval = VInt int | VNull

fun convert :: "bool \<Rightarrow> ctype \<Rightarrow> cval \<Rightarrow> cval option" where
  "convert sg TChar (VInt n) =
     Some (VInt (if sg then sint (word_of_int n :: 8 word) else uint (word_of_int n :: 8 word)))"
| "convert sg TUChar (VInt n) = Some (VInt (uint (word_of_int n :: 8 word)))"
| "convert sg (TPtr t) VNull = Some VNull"
| "convert sg t v = None"

fun eval :: "bool \<Rightarrow> expr \<Rightarrow> cval option" where
  "eval sg (ENum n) = Some (VInt n)"
| "eval sg (EIdent x) = (if x = ''NULL'' then Some VNull else None)"
| "eval sg (EParen e) = eval sg e"
| "eval sg (ECast t e) = (case eval sg e of None \<Rightarrow> None | Some v \<Rightarrow> convert sg t v)"

text \<open>
  The value a global starts with, where the file gives it an initialiser: the value of
  the initialiser converted to the declared type.
\<close>

definition initial_value :: "bool \<Rightarrow> decl list \<Rightarrow> string \<Rightarrow> cval option" where
  "initial_value sg tu x =
     (case map_of (globals [] tu) x of
        Some (l, t, Some e) \<Rightarrow> (case eval sg e of None \<Rightarrow> None | Some v \<Rightarrow> convert sg t v)
      | _ \<Rightarrow> None)"

text \<open>The globals that have an initialiser, with their declared type.\<close>

definition initialised :: "decl list \<Rightarrow> (string \<times> ctype) list" where
  "initialised tu =
     concat (map (\<lambda>(x, l, t, e). case e of None \<Rightarrow> [] | Some i \<Rightarrow> [(x, t)]) (globals [] tu))"

fun is_pointer :: "ctype \<Rightarrow> bool" where
  "is_pointer (TPtr t) = True"
| "is_pointer t = False"

section \<open>What the compiler sees\<close>

text \<open>
  The translation unit, computed once. Every use of \<open>mod_export\<close> has become a
  declaration \<open>static;\<close> of its own, in front of the declaration it was written in, and
  the only place where \<open>ZSH_HEAP_DEBUG\<close> matters is the member list of
  \<open>struct cmgroup\<close>.
\<close>

lemma unit_unfold:
  "translation_unit heap_debug =
    [DTypedef (TNamed ''size_t'') ''LinkList'',
  DTypedef (TNamed ''uint32_t'') ''mode_t'', DEmpty [''static''],
  DVar [''static''] TUChar
   [(''Meta'', Some (EParen (ECast TChar (ENum 131))))],
  DEmpty [''static''],
  DVar [''static''] TUChar
   [(''Inpar'', Some (EParen (ECast TChar (ENum 136))))],
  DEmpty [''static''],
  DVar [''static''] TUChar
   [(''Outpar'', Some (EParen (ECast TChar (ENum 138))))],
  DTypedef (TPtr (TStruct ''cmatcher'')) ''Cmatcher'',
  DTypedef (TPtr (TStruct ''cmlist'')) ''Cmlist'',
  DTypedef (TPtr (TStruct ''cpattern'')) ''Cpattern'',
  DTypedef (TPtr (TStruct ''menuinfo'')) ''Menuinfo'',
  DTypedef (TPtr (TStruct ''cexpl'')) ''Cexpl'',
  DTypedef (TPtr (TStruct ''cmgroup'')) ''Cmgroup'',
  DTypedef (TPtr (TStruct ''cmatch'')) ''Cmatch'',
  DStruct ''cmatch'' (fields [] cmatch_members),
  DTypedef (TPtr (TStruct ''cmgroup'')) ''Cmgroup'',
  DStruct ''cmgroup'' (fields (predefined heap_debug) cmgroup_members),
  DEmpty [''static''], DVar [] (TNamed ''LinkList'') [(''matches'', None)],
  DEmpty [''static''],
  DVar [] (TNamed ''Cmgroup'')
   [(''lastmatches'', None), (''pmatches'', None), (''amatches'', None),
    (''lmatches'', None), (''lastlmatches'', None)],
  DEmpty [''static''], DVar [] (TPtr (TPtr TChar)) [(''cfargs'', None)],
  DEmpty [''static''], DVar [] TInt [(''cfret'', None)],
  DEmpty [''static''],
  DVar [] (TPtr TChar) [(''compfunc'', Some (EIdent ''NULL''))],
  DEmpty [''static''],
  DVar [] TInt [(''nbrbeg'', None), (''nbrend'', None)],
  DEmpty [''static''],
  DFun [] TInt ''menucomplete'' (Params [(TPtr (TPtr TChar), ''args'')])
   None,
  DEmpty [''static''],
  DFun [] TVoid ''makezleparams'' (Params [(TInt, ''ro'')]) None,
  DEmpty [''static''],
  DFun [] TInt ''permmatches'' (Params [(TInt, ''last'')]) None,
  DEmpty [''static''],
  DFun [] TVoid ''do_single'' (Params [(TNamed ''Cmatch'', ''m'')]) None,
  DEmpty [''static''], DFun [] TVoid ''metafy_line'' ParamVoid None,
  DEmpty [''static''], DFun [] TVoid ''unmetafy_line'' ParamVoid None,
  DStruct ''menuinfo'' (fields [] menuinfo_members),
  DEmpty [''static''], DVar [] (TStruct ''menuinfo'') [(''minfo'', None)],
  DFun [] TInt ''expandhistory'' Unspecified None,
  DFun [] TVoid ''set_histno''
   (Params [(TPtr TVoid, ''pm''), (TLong, ''x'')]) None,
  DFun [] TInt ''selectkeymap''
   (Params [(TPtr TChar, ''name''), (TInt, ''fb'')]) None,
  DFun [] TVoid ''initundo'' ParamVoid None,
  DFun [] TInt ''acceptline'' Unspecified None]"
  by (simp add: translation_unit_def zsh_h_def predefined_def cmatch_members_def cmgroup_members_def menuinfo_members_def)

lemma unit_kinds:
  "set (map decl_kind (translation_unit heap_debug)) = {KEmpty, KAlias, KLayout, KVariable, KPrototype}"
  by (simp add: unit_unfold insert_commute)

lemma typedefs_unit:
  "typedefs [] (translation_unit heap_debug) =
     [(''Cmgroup'', TPtr (TStruct ''cmgroup'')),
      (''Cmatch'', TPtr (TStruct ''cmatch'')),
      (''Cmgroup'', TPtr (TStruct ''cmgroup'')),
      (''Cexpl'', TPtr (TStruct ''cexpl'')),
      (''Menuinfo'', TPtr (TStruct ''menuinfo'')),
      (''Cpattern'', TPtr (TStruct ''cpattern'')),
      (''Cmlist'', TPtr (TStruct ''cmlist'')),
      (''Cmatcher'', TPtr (TStruct ''cmatcher'')),
      (''mode_t'', TNamed ''uint32_t''),
      (''LinkList'', TNamed ''size_t'')]"
  by (simp add: unit_unfold)

lemma cmatch_layout:
  "map_of (structs [] (translation_unit heap_debug)) ''cmatch'' =
     Some [(''str'', TPtr TChar), (''orig'', TPtr TChar), (''ipre'', TPtr TChar),
           (''ripre'', TPtr TChar), (''isuf'', TPtr TChar), (''ppre'', TPtr TChar),
           (''psuf'', TPtr TChar), (''prpre'', TPtr TChar), (''pre'', TPtr TChar),
           (''suf'', TPtr TChar), (''disp'', TPtr TChar), (''autoq'', TPtr TChar),
           (''flags'', TInt), (''brpl'', TPtr TInt), (''brsl'', TPtr TInt),
           (''rems'', TPtr TChar), (''remf'', TPtr TChar), (''qipl'', TInt),
           (''qisl'', TInt), (''rnum'', TInt), (''gnum'', TInt),
           (''mode'', TNamed ''uint32_t''), (''modec'', TChar),
           (''fmode'', TNamed ''uint32_t''), (''fmodec'', TChar)]"
  by (simp add: unit_unfold cmatch_members_def)

lemma cmgroup_layout:
  "map_of (structs [] (translation_unit heap_debug)) ''cmgroup'' =
     Some ([(''name'', TPtr TChar), (''prev'', TPtr (TStruct ''cmgroup'')),
            (''next'', TPtr (TStruct ''cmgroup'')), (''flags'', TInt), (''mcount'', TInt),
            (''matches'', TPtr (TPtr (TStruct ''cmatch''))), (''lcount'', TInt),
            (''llcount'', TInt), (''ylist'', TPtr (TPtr TChar)), (''ecount'', TInt),
            (''expls'', TPtr (TPtr (TStruct ''cexpl''))), (''ccount'', TInt),
            (''lexpls'', TNamed ''size_t''), (''lmatches'', TNamed ''size_t''),
            (''lfmatches'', TNamed ''size_t''), (''lallccs'', TNamed ''size_t''),
            (''num'', TInt), (''nbrbeg'', TInt), (''nbrend'', TInt), (''new'', TInt),
            (''dcount'', TInt), (''cols'', TInt), (''lins'', TInt), (''width'', TInt),
            (''widths'', TPtr TInt), (''totl'', TInt), (''shortest'', TInt),
            (''perm'', TPtr (TStruct ''cmgroup''))]
           @ (if heap_debug then [(''heap_id'', TNamed ''Heapid'')] else []))"
  by (simp add: unit_unfold cmgroup_members_def predefined_def)

lemma menuinfo_layout:
  "map_of (structs [] (translation_unit heap_debug)) ''menuinfo'' =
     Some [(''group'', TPtr (TStruct ''cmgroup'')), (''cur'', TPtr (TPtr (TStruct ''cmatch''))),
           (''pos'', TInt), (''len'', TInt), (''end'', TInt), (''we'', TInt),
           (''insc'', TInt), (''asked'', TInt), (''prebr'', TPtr TChar),
           (''postbr'', TPtr TChar)]"
  by (simp add: unit_unfold menuinfo_members_def)

lemma globals_unit:
  "globals [] (translation_unit heap_debug) =
     [(''Meta'', Internal, TUChar, Some (EParen (ECast TChar (ENum 131)))),
      (''Inpar'', Internal, TUChar, Some (EParen (ECast TChar (ENum 136)))),
      (''Outpar'', Internal, TUChar, Some (EParen (ECast TChar (ENum 138)))),
      (''matches'', External, TNamed ''size_t'', None),
      (''lastmatches'', External, TPtr (TStruct ''cmgroup''), None),
      (''pmatches'', External, TPtr (TStruct ''cmgroup''), None),
      (''amatches'', External, TPtr (TStruct ''cmgroup''), None),
      (''lmatches'', External, TPtr (TStruct ''cmgroup''), None),
      (''lastlmatches'', External, TPtr (TStruct ''cmgroup''), None),
      (''cfargs'', External, TPtr (TPtr TChar), None),
      (''cfret'', External, TInt, None),
      (''compfunc'', External, TPtr TChar, Some (EIdent ''NULL'')),
      (''nbrbeg'', External, TInt, None), (''nbrend'', External, TInt, None),
      (''minfo'', External, TStruct ''menuinfo'', None)]"
  by (simp add: unit_unfold linkage_of_def)

text \<open>
  A signed \<open>char\<close> and the integer it was converted from agree modulo \<open>2 ^ 8\<close>.
\<close>

lemma sint_low_byte: "sint (word_of_int n :: 8 word) mod 256 = n mod 256"
proof -
  let ?c = "word_of_int n :: 8 word"
  have "uint (word_of_int (sint ?c) :: 8 word) = sint ?c mod 2 ^ LENGTH(8)"
    by (rule uint_word_of_int)
  moreover have "word_of_int (sint ?c) = ?c"
    by simp
  moreover have "uint ?c = n mod 2 ^ LENGTH(8)"
    by (rule uint_word_of_int)
  ultimately show ?thesis
    by simp
qed

text \<open>
  The members of \<open>struct menuinfo\<close> that hold the state of menu completion: \<open>group\<close>
  points to a match group, \<open>cur\<close> to an entry of an array of matches, and \<open>pos\<close>,
  \<open>len\<close> and \<open>we\<close> are of type \<open>int\<close>. The header gives \<open>we\<close> no more than
  its type; the code that stores into it belongs to the shell.
\<close>

lemma menuinfo_cursor_members:
  "field_type (translation_unit heap_debug) ''menuinfo'' ''group'' = Some (TPtr (TStruct ''cmgroup''))
   \<and> field_type (translation_unit heap_debug) ''menuinfo'' ''cur'' = Some (TPtr (TPtr (TStruct ''cmatch'')))
   \<and> map (field_type (translation_unit heap_debug) ''menuinfo'') [''pos'', ''len'', ''we'']
       = [Some TInt, Some TInt, Some TInt]"
  by (simp add: field_type_def menuinfo_layout)

section \<open>The claims\<close>

text \<open>
  Claim C1. The file has no algorithm, no control flow and no behaviour of its own: every
  declaration in it is a type alias, a struct layout, a variable declaration or a function
  prototype, and neither a function body nor an executable statement occurs in it. The
  kinds are those of the file as written, directives apart; the statements are counted in
  the file as written and in the translation unit, whatever \<open>ZSH_HEAP_DEBUG\<close> is.
\<close>

theorem zsh_h_declarations_only:
  "set (map kind_of (declarations zsh_h)) = {KAlias, KLayout, KVariable, KPrototype}
   \<and> statements zsh_h = []
   \<and> unit_statements (translation_unit heap_debug) = []"
  by (simp add: declarations_def statements_def unit_statements_def unit_unfold zsh_h_def
      insert_commute)

text \<open>
  Claim C3. \<open>struct cmgroup\<close> is a node of a doubly-linked list: \<open>prev\<close> and \<open>next\<close>
  are pointers to \<open>struct cmgroup\<close> itself (the alias \<open>Cmgroup\<close>), so a node refers to
  its neighbours and does not contain them. Each node has the array of match records
  \<open>matches\<close>, an array of pointers to \<open>struct cmatch\<close>, the counters \<open>mcount\<close>,
  \<open>ecount\<close>, \<open>cols\<close> and \<open>width\<close> of type \<open>int\<close>, and the array of column widths
  \<open>widths\<close>. Every member name occurs once.
\<close>

theorem cmgroup_doubly_linked_node:
  "field_type (translation_unit heap_debug) ''cmgroup'' ''prev'' = Some (TPtr (TStruct ''cmgroup''))
   \<and> field_type (translation_unit heap_debug) ''cmgroup'' ''next'' = Some (TPtr (TStruct ''cmgroup''))
   \<and> field_type (translation_unit heap_debug) ''cmgroup'' ''matches'' = Some (TPtr (TPtr (TStruct ''cmatch'')))
   \<and> map (field_type (translation_unit heap_debug) ''cmgroup'') [''mcount'', ''ecount'', ''cols'', ''width'']
       = [Some TInt, Some TInt, Some TInt, Some TInt]
   \<and> field_type (translation_unit heap_debug) ''cmgroup'' ''widths'' = Some (TPtr TInt)
   \<and> distinct (field_names (translation_unit heap_debug) ''cmgroup'')"
  by (simp add: field_type_def field_names_def cmgroup_layout)

text \<open>
  Claim C4. \<open>struct cmatch\<close> describes one completion candidate: the match text
  \<open>str\<close>, the prefix and suffix strings \<open>ipre\<close>, \<open>ripre\<close>, \<open>isuf\<close>, \<open>ppre\<close>,
  \<open>psuf\<close>, \<open>prpre\<close>, \<open>pre\<close> and \<open>suf\<close> and the display string \<open>disp\<close> are each a
  single \<open>char *\<close>, \<open>flags\<close> is an \<open>int\<close>, no member refers to another record, and
  every member name occurs once.
\<close>

theorem cmatch_one_candidate:
  "map (field_type (translation_unit heap_debug) ''cmatch'')
       [''str'', ''ipre'', ''ripre'', ''isuf'', ''ppre'', ''psuf'', ''prpre'', ''pre'', ''suf'', ''disp'']
     = replicate 10 (Some (TPtr TChar))
   \<and> field_type (translation_unit heap_debug) ''cmatch'' ''flags'' = Some TInt
   \<and> links (translation_unit heap_debug) ''cmatch'' = []
   \<and> distinct (field_names (translation_unit heap_debug) ''cmatch'')"
  by (simp add: field_type_def field_names_def links_def cmatch_layout eval_nat_numeral)

text \<open>
  Claim C6, as stated, calls the file a flat list of type aliases, struct layouts and
  extern function signatures. That part fails: the file also declares variables. Line 122,
  \<open>mod_export char *compfunc = NULL;\<close>, is one of ten such declarations, so the kinds
  of the file's declarations are not among aliases, layouts and prototypes alone.
\<close>

theorem flat_list_without_variables_counterexample:
  "VarDecl [''mod_export''] (TPtr TChar) [(''compfunc'', Some (EIdent ''NULL''))]
     \<in> set (declarations zsh_h)
   \<and> kind_of (VarDecl [''mod_export''] (TPtr TChar) [(''compfunc'', Some (EIdent ''NULL''))])
     = KVariable
   \<and> \<not> set (map kind_of (declarations zsh_h)) \<subseteq> {KAlias, KLayout, KPrototype}"
  by (simp add: declarations_def zsh_h_def)

text \<open>
  Claim C6, amended. The file is a flat list of type aliases, struct layouts, variable
  declarations and extern function signatures. Its ten variable declarations (lines 40 to
  42, 118 to 123 and 154) declare fifteen globals. Every function it declares,
  \<open>menucomplete\<close>, \<open>makezleparams\<close>, \<open>permmatches\<close>, \<open>do_single\<close>,
  \<open>metafy_line\<close>, \<open>unmetafy_line\<close>, \<open>expandhistory\<close>, \<open>set_histno\<close>,
  \<open>selectkeymap\<close>, \<open>initundo\<close> and \<open>acceptline\<close>, is a signature with external
  linkage and without a definition in the file. The semicolon in the replacement list of
  \<open>mod_export\<close> is what keeps \<open>static\<close> away from the six functions declared with it.
\<close>

theorem flat_list_with_variables_and_external_signatures:
  "set (map kind_of (declarations zsh_h)) = {KAlias, KLayout, KVariable, KPrototype}
   \<and> length (filter (\<lambda>it. kind_of it = KVariable) (declarations zsh_h)) = 10
   \<and> map fst (globals [] (translation_unit heap_debug)) =
       [''Meta'', ''Inpar'', ''Outpar'', ''matches'', ''lastmatches'', ''pmatches'',
        ''amatches'', ''lmatches'', ''lastlmatches'', ''cfargs'', ''cfret'', ''compfunc'',
        ''nbrbeg'', ''nbrend'', ''minfo'']
   \<and> declared_functions (translation_unit heap_debug) =
       [(''menucomplete'', External, False), (''makezleparams'', External, False),
        (''permmatches'', External, False), (''do_single'', External, False),
        (''metafy_line'', External, False), (''unmetafy_line'', External, False),
        (''expandhistory'', External, False), (''set_histno'', External, False),
        (''selectkeymap'', External, False), (''initundo'', External, False),
        (''acceptline'', External, False)]"
  by (simp add: declarations_def zsh_h_def insert_commute globals_unit unit_unfold
      linkage_of_def)

text \<open>
  Claim C7. No declaration of the file defines an error condition: for each function
  prototype the file expresses no value that is returned and no condition that is branched
  on, and the only macro it defines is \<open>mod_export\<close>, so it names no error code either.
\<close>

theorem no_error_conditions:
  "outcomes (translation_unit heap_debug) =
     [(''menucomplete'', [], []), (''makezleparams'', [], []),
      (''permmatches'', [], []), (''do_single'', [], []),
      (''metafy_line'', [], []), (''unmetafy_line'', [], []),
      (''expandhistory'', [], []), (''set_histno'', [], []),
      (''selectkeymap'', [], []), (''initundo'', [], []),
      (''acceptline'', [], [])]
   \<and> defined_macros zsh_h = [''mod_export'']"
  by (simp add: unit_unfold zsh_h_def)

text \<open>
  Claim C8. \<open>Meta\<close>, \<open>Inpar\<close> and \<open>Outpar\<close> start with the values \<open>0x83\<close>, \<open>0x88\<close>
  and \<open>0x8A\<close>, whether plain \<open>char\<close> is signed or not: the cast to \<open>char\<close> followed by
  the conversion to \<open>unsigned char\<close> reduces any integer modulo \<open>2 ^ 8\<close>. No statement
  of the file assigns to any variable.
\<close>

theorem meta_bytes_initial_values:
  "initial_value sg (translation_unit heap_debug) ''Meta'' = Some (VInt 0x83)
   \<and> initial_value sg (translation_unit heap_debug) ''Inpar'' = Some (VInt 0x88)
   \<and> initial_value sg (translation_unit heap_debug) ''Outpar'' = Some (VInt 0x8A)
   \<and> (case convert sg TChar (VInt n) of None \<Rightarrow> None | Some v \<Rightarrow> convert sg TUChar v)
        = Some (VInt (n mod 2 ^ 8))
   \<and> concat (map assigned (unit_statements (translation_unit heap_debug))) = []"
  by (simp add: initial_value_def globals_unit uint_word_of_int sint_low_byte unit_statements_def unit_unfold)

text \<open>
  Claim C9. In this header \<open>LinkList\<close> is an alias of \<open>size_t\<close> and \<open>mode_t\<close> an alias
  of \<open>uint32_t\<close>. The members \<open>lexpls\<close>, \<open>lmatches\<close>, \<open>lfmatches\<close> and \<open>lallccs\<close>
  of \<open>struct cmgroup\<close> therefore have the type \<open>size_t\<close>, an unsigned integer of the
  platform's width \<open>w\<close>, and the members \<open>mode\<close> and \<open>fmode\<close> of \<open>struct cmatch\<close>
  the type \<open>uint32_t\<close>, an unsigned integer of 32 bits: none is a pointer or a struct.
\<close>

theorem linklist_and_mode_plain_unsigned:
  "map_of (typedefs [] (translation_unit heap_debug)) ''LinkList'' = Some (TNamed ''size_t'')
   \<and> map_of (typedefs [] (translation_unit heap_debug)) ''mode_t'' = Some (TNamed ''uint32_t'')
   \<and> map (field_type (translation_unit heap_debug) ''cmgroup'')
        [''lexpls'', ''lmatches'', ''lfmatches'', ''lallccs''] = replicate 4 (Some (TNamed ''size_t''))
   \<and> map (field_type (translation_unit heap_debug) ''cmatch'') [''mode'', ''fmode'']
        = replicate 2 (Some (TNamed ''uint32_t''))
   \<and> map (\<lambda>f. Option.bind (field_type (translation_unit heap_debug) ''cmgroup'' f) (unsigned_bits w))
        [''lexpls'', ''lmatches'', ''lfmatches'', ''lallccs''] = replicate 4 (Some w)
   \<and> map (\<lambda>f. Option.bind (field_type (translation_unit heap_debug) ''cmatch'' f) (unsigned_bits w))
        [''mode'', ''fmode''] = replicate 2 (Some 32)"
  by (simp add: typedefs_unit field_type_def cmatch_layout cmgroup_layout eval_nat_numeral)

text \<open>
  Claim C10. \<open>compfunc\<close> starts as the null pointer: no completion function is set. It
  is the only global of pointer type that has an initialiser, and the only global whose
  initialiser is a pointer.
\<close>

theorem compfunc_initially_null:
  "initial_value sg (translation_unit heap_debug) ''compfunc'' = Some VNull
   \<and> filter (\<lambda>(x, t). is_pointer t) (initialised (translation_unit heap_debug))
        = [(''compfunc'', TPtr TChar)]
   \<and> filter (\<lambda>x. initial_value sg (translation_unit heap_debug) x = Some VNull)
        (map fst (initialised (translation_unit heap_debug))) = [''compfunc'']"
  by (simp add: initial_value_def initialised_def globals_unit)

end
